theory Spec2Isabelle
  imports Main "HOL-Library.Word"
begin

section \<open>The remote client connection of d2remoteclient\<close>

text \<open>
  A shallow embedding of \<^verbatim>\<open>d2networking/d2client/d2remoteclient/remote_client_connection.go\<close>.
  The Go standard library (net, compress/gzip, encoding/json) and the packages of the
  repository that the file only calls are taken as an explicit environment: a record of
  functions handed to every operation. Theorems hold for every environment; closed
  examples use the small environment \<open>demo_env\<close> defined below. What an operation
  does to the outside world is returned as a list of events, in program order.
\<close>

subsection \<open>Data model\<close>

type_synonym byte = "8 word"

text \<open>
  Modelled from the spec: the enumeration d2netpackettype.NetPacketType is not part of the
  source file. The names are the ones the source uses; \<open>Reserved\<close> stands for every
  tag value without a name of its own. The numbering is taken as a parameter
  (\<open>byte_of_type\<close> and \<open>type_of_byte\<close> of the environment).
\<close>

datatype NetPacketType =
    UpdateServerInfo
  | GenerateMap
  | MovePlayer
  | AddPlayer
  | PlayerConnectionRequest
  | PlayerDisconnectRequest
  | PlayerDisconnectionNotification
  | Ping
  | Pong
  | Reserved byte

text \<open>
  Modelled from the spec: the payload structures of d2netpacket are not part of the source
  file. The three packets this file creates carry the connection's id (and the player
  state); the four packets it forwards carry a decoded structure of an opaque type \<open>'d\<close>.
\<close>

datatype 'd PacketData =
    PlayerConnectionRequestPacket string 'd
  | PlayerDisconnectRequestPacket string
  | PongPacket string
  | GenerateMapPacket 'd
  | MovePlayerPacket 'd
  | UpdateServerInfoPacket 'd
  | AddPlayerPacket 'd

record 'd NetPacket =
  PacketType :: NetPacketType
  PacketData :: "'d PacketData"

text \<open>
  Go's error values. \<open>LibError\<close> wraps the message of an error that a library call or
  the listener returned; \<open>EmptyPacketBody\<close> is the error SendPacketToServer makes
  itself.
\<close>

datatype error =
    LibError string
  | EmptyPacketBody NetPacketType

text \<open>A call either returns its result or panics and returns nothing.\<close>

datatype 'a ret = Returns 'a | Panics

type_synonym UDPAddr = string

datatype UDPConn = UDPConn UDPAddr

datatype log_msg =
    ConnectedTo UDPAddr
  | ConnectionRequestFailed
  | SocketError error
  | CopyError NetPacketType error
  | EmptyPacket NetPacketType
  | UnmarshalFailed NetPacketType error
  | ProcessingError NetPacketType error
  | PingResponseError error
  | ReceivedDisconnect
  | UnknownPacketType NetPacketType

datatype 'd event =
    Resolve string
  | Dial UDPAddr
  | GoServerListener
  | Submitted "'d NetPacket"
  | UdpWrite UDPConn "byte list"
  | OnPacketReceived "'d NetPacket"
  | Log log_msg

text \<open>
  The struct RemoteClientConnection. A nil interface or pointer is \<open>None\<close>. The
  listener is the function its OnPacketReceived method computes.
\<close>

record 'd RemoteClientConnection =
  clientListener :: "('d NetPacket \<Rightarrow> string option) option"
  uniqueId :: string
  udpConnection :: "UDPConn option"
  active :: bool

text \<open>
  The environment. \<open>gzip_Write\<close> is the error of writer.Write (which on success reports
  the number of bytes of its argument, all of them); \<open>gzip_Close\<close> gives the bytes the
  writer has put into the frame once closed. \<open>gzip_NewReader\<close> is the error of
  gzip.NewReader on a stream (the reader it returns is nil exactly when there is one);
  \<open>io_Copy\<close> gives the bytes copied out of the reader and the error of the copy.
  A library error is its message.
\<close>

record 'd env =
  ResolveUDPAddr :: "string \<Rightarrow> string + UDPAddr"
  DialUDP :: "UDPAddr \<Rightarrow> string + UDPConn"
  udp_Write :: "UDPConn \<Rightarrow> byte list \<Rightarrow> string option"
  LoadPlayerState :: "string \<Rightarrow> 'd"
  json_Marshal :: "'d PacketData \<Rightarrow> string + byte list"
  json_Unmarshal :: "NetPacketType \<Rightarrow> byte list \<Rightarrow> string + 'd"
  gzip_Write :: "byte list \<Rightarrow> string option"
  gzip_Close :: "byte list \<Rightarrow> string + byte list"
  gzip_NewReader :: "byte list \<Rightarrow> string option"
  io_Copy :: "byte list \<Rightarrow> byte list \<times> string option"
  byte_of_type :: "NetPacketType \<Rightarrow> byte"
  type_of_byte :: "byte \<Rightarrow> NetPacketType"

subsection \<open>Packet constructors\<close>

text \<open>
  Modelled from the spec: d2netpacket.CreatePongPacket, CreatePlayerDisconnectRequestPacket
  and CreatePlayerConnectionRequestPacket are not part of the source file. Each builds the
  packet of its type carrying the id it is given.
\<close>

definition CreatePongPacket :: "string \<Rightarrow> 'd NetPacket" where
  "CreatePongPacket uid = \<lparr>PacketType = Pong, PacketData = PongPacket uid\<rparr>"

definition CreatePlayerDisconnectRequestPacket :: "string \<Rightarrow> 'd NetPacket" where
  "CreatePlayerDisconnectRequestPacket uid =
     \<lparr>PacketType = PlayerDisconnectRequest, PacketData = PlayerDisconnectRequestPacket uid\<rparr>"

definition CreatePlayerConnectionRequestPacket :: "string \<Rightarrow> 'd \<Rightarrow> 'd NetPacket" where
  "CreatePlayerConnectionRequestPacket uid gameState =
     \<lparr>PacketType = PlayerConnectionRequest,
      PacketData = PlayerConnectionRequestPacket uid gameState\<rparr>"

subsection \<open>Construction and accessors\<close>

definition GetUniqueId :: "'d RemoteClientConnection \<Rightarrow> string" where
  "GetUniqueId l = uniqueId l"

text \<open>Create; the freshly generated uuid is its argument.\<close>

definition Create :: "string \<Rightarrow> 'd RemoteClientConnection" where
  "Create uuid =
     \<lparr>clientListener = None, uniqueId = uuid, udpConnection = None, active = False\<rparr>"

definition SetClientListener ::
  "'d RemoteClientConnection \<Rightarrow> ('d NetPacket \<Rightarrow> string option) \<Rightarrow> 'd RemoteClientConnection"
where
  "SetClientListener l listener = l\<lparr>clientListener := Some listener\<rparr>"

text \<open>
  SendPacketToClient calls the listener's method. On a nil listener the call dereferences
  nil and the goroutine panics: the result is \<open>None\<close>.
\<close>

definition SendPacketToClient ::
  "'d RemoteClientConnection \<Rightarrow> 'd NetPacket \<Rightarrow> (error option \<times> 'd event list) option"
where
  "SendPacketToClient l packet =
     (case clientListener l of
        None \<Rightarrow> None
      | Some listener \<Rightarrow>
          Some (map_option LibError (listener packet), [OnPacketReceived packet]))"

subsection \<open>Sending\<close>

text \<open>
  SendPacketToServer. The first event records the packet handed in. \<open>written\<close> is the
  count writer.Write returns: the bytes of \<open>data\<close> it consumed. On a nil udpConnection
  the call of Write at line 126 dereferences nil: the function panics there and does not
  return.
\<close>

definition SendPacketToServer ::
  "'d env \<Rightarrow> 'd RemoteClientConnection \<Rightarrow> 'd NetPacket \<Rightarrow>
     error option ret \<times> 'd event list"
where
  "SendPacketToServer env l packet =
     (case json_Marshal env (PacketData packet) of
        Inl err \<Rightarrow> (Returns (Some (LibError err)), [Submitted packet])
      | Inr data \<Rightarrow>
          (case gzip_Write env data of
             Some err \<Rightarrow> (Returns (Some (LibError err)), [Submitted packet])
           | None \<Rightarrow>
               (let written = length data in
                if written = 0 then
                  (Returns (Some (EmptyPacketBody (PacketType packet))), [Submitted packet])
                else
                  (case gzip_Close env data of
                     Inl err \<Rightarrow> (Returns (Some (LibError err)), [Submitted packet])
                   | Inr body \<Rightarrow>
                       (let buff = byte_of_type env (PacketType packet) # body in
                        case udpConnection l of
                          None \<Rightarrow> (Panics, [Submitted packet])
                        | Some c \<Rightarrow>
                            (Returns (map_option LibError (udp_Write env c buff)),
                             [Submitted packet, UdpWrite c buff]))))))"

subsection \<open>Open and Close\<close>

text \<open>strings.Contains: some suffix of \<open>s\<close> starts with \<open>substr\<close>.\<close>

fun HasPrefix :: "string \<Rightarrow> string \<Rightarrow> bool" where
  "HasPrefix s [] = True"
| "HasPrefix [] (c # cs) = False"
| "HasPrefix (x # xs) (c # cs) = (x = c \<and> HasPrefix xs cs)"

fun Contains :: "string \<Rightarrow> string \<Rightarrow> bool" where
  "Contains [] substr = (substr = [])"
| "Contains (x # xs) substr = (HasPrefix (x # xs) substr \<or> Contains xs substr)"

text \<open>
  Open. It gives the connection as the call leaves it, the error it returns (or that it
  panicked) and the events. The goroutine it starts is the event \<open>GoServerListener\<close>;
  what that goroutine does is \<open>serverListener\<close> below. A failed dial stores the nil
  connection it got.
\<close>

definition Open ::
  "'d env \<Rightarrow> 'd RemoteClientConnection \<Rightarrow> string \<Rightarrow> string \<Rightarrow>
     'd RemoteClientConnection \<times> error option ret \<times> 'd event list"
where
  "Open env l connectionString saveFilePath =
     (let connectionString =
            (if \<not> Contains connectionString '':'' then connectionString @ '':6669''
             else connectionString)
      in case ResolveUDPAddr env connectionString of
           Inl err \<Rightarrow> (l, Returns (Some (LibError err)), [Resolve connectionString])
         | Inr udpAddress \<Rightarrow>
             (case DialUDP env udpAddress of
                Inl err \<Rightarrow>
                  (l\<lparr>udpConnection := None\<rparr>, Returns (Some (LibError err)),
                   [Resolve connectionString, Dial udpAddress])
              | Inr c \<Rightarrow>
                  (let l = l\<lparr>udpConnection := Some c\<rparr>;
                       l = l\<lparr>active := True\<rparr>;
                       gameState = LoadPlayerState env saveFilePath;
                       (err, evs) =
                         SendPacketToServer env l
                           (CreatePlayerConnectionRequestPacket (GetUniqueId l) gameState);
                       pre = [Resolve connectionString, Dial udpAddress, GoServerListener,
                              Log (ConnectedTo udpAddress)] @ evs
                   in case err of
                        Panics \<Rightarrow> (l, Panics, pre)
                      | Returns (Some e) \<Rightarrow>
                          (l, Returns (Some e), pre @ [Log ConnectionRequestFailed])
                      | Returns None \<Rightarrow> (l, Returns None, pre))))"

text \<open>Close, with the same three results.\<close>

definition Close ::
  "'d env \<Rightarrow> 'd RemoteClientConnection \<Rightarrow>
     'd RemoteClientConnection \<times> error option ret \<times> 'd event list"
where
  "Close env l =
     (let l = l\<lparr>active := False\<rparr>;
          (err, evs) =
            SendPacketToServer env l (CreatePlayerDisconnectRequestPacket (GetUniqueId l))
      in case err of
           Panics \<Rightarrow> (l, Panics, evs)
         | Returns (Some e) \<Rightarrow> (l, Returns (Some e), evs)
         | Returns None \<Rightarrow> (l, Returns None, evs))"

subsection \<open>The receive loop\<close>

text \<open>
  One iteration either goes on to the next (\<open>Next\<close>; every \<^verbatim>\<open>continue\<close> and the
  end of the loop body) or panics (\<open>Panic\<close>), which ends the goroutine and the process.
\<close>

datatype outcome = Next | Panic

text \<open>
  The four forwarding cases of the switch have the same body up to the structure that is
  unmarshalled: unmarshal, on failure log and continue; else hand the packet to
  SendPacketToClient and log the error it returns, if any.
\<close>

definition forward ::
  "'d env \<Rightarrow> 'd RemoteClientConnection \<Rightarrow> NetPacketType \<Rightarrow> ('d \<Rightarrow> 'd PacketData) \<Rightarrow>
     byte list \<Rightarrow> 'd event list \<times> outcome"
where
  "forward env l packetType structure stringData =
     (case json_Unmarshal env packetType stringData of
        Inl err \<Rightarrow> ([Log (UnmarshalFailed packetType (LibError err))], Next)
      | Inr packet \<Rightarrow>
          (case SendPacketToClient l
                  \<lparr>PacketType = packetType, PacketData = structure packet\<rparr> of
             None \<Rightarrow> ([], Panic)
           | Some (err, evs) \<Rightarrow>
               (case err of
                  Some e \<Rightarrow> (evs @ [Log (ProcessingError packetType e)], Next)
                | None \<Rightarrow> (evs, Next))))"

text \<open>The switch on the packet type (lines 167 to 239).\<close>

definition dispatch ::
  "'d env \<Rightarrow> 'd RemoteClientConnection \<Rightarrow> NetPacketType \<Rightarrow> byte list \<Rightarrow>
     'd event list \<times> outcome"
where
  "dispatch env l packetType stringData =
     (case packetType of
        GenerateMap \<Rightarrow> forward env l packetType GenerateMapPacket stringData
      | MovePlayer \<Rightarrow> forward env l packetType MovePlayerPacket stringData
      | UpdateServerInfo \<Rightarrow> forward env l packetType UpdateServerInfoPacket stringData
      | AddPlayer \<Rightarrow> forward env l packetType AddPlayerPacket stringData
      | Ping \<Rightarrow>
          (let (err, evs) = SendPacketToServer env l (CreatePongPacket (uniqueId l))
           in case err of
                Panics \<Rightarrow> (evs, Panic)
              | Returns (Some e) \<Rightarrow> (evs @ [Log (PingResponseError e)], Next)
              | Returns None \<Rightarrow> (evs, Next))
      | PlayerDisconnectionNotification \<Rightarrow>
          (case json_Unmarshal env packetType stringData of
             Inl err \<Rightarrow> ([Log (UnmarshalFailed packetType (LibError err))], Next)
           | Inr packet \<Rightarrow> ([Log ReceivedDisconnect], Next))
      | _ \<Rightarrow> ([Log (UnknownPacketType packetType)], Next))"

text \<open>
  The bytes the gzip reader is given: bytes.NewBuffer over the whole buffer, less the one
  byte ReadByte has taken. On an empty buffer ReadByte returns 0 and an error that the
  code does not look at.
\<close>

definition packetTypeId_of :: "byte list \<Rightarrow> byte" where
  "packetTypeId_of buffer = (case buffer of [] \<Rightarrow> 0 | b # rest \<Rightarrow> b)"

definition reader_input :: "byte list \<Rightarrow> byte list" where
  "reader_input buffer = (case buffer of [] \<Rightarrow> [] | b # rest \<Rightarrow> rest)"

text \<open>
  The loop body after a successful read (lines 150 to 240). The error of gzip.NewReader is
  overwritten unread; with a nil reader io.Copy calls Read on nil and panics. The error of
  io.Copy is logged, and the \<^verbatim>\<open>continue\<close> after it is commented out.
\<close>

definition serverListener_body ::
  "'d env \<Rightarrow> 'd RemoteClientConnection \<Rightarrow> byte list \<Rightarrow> 'd event list \<times> outcome"
where
  "serverListener_body env l buffer =
     (let packetTypeId = packetTypeId_of buffer;
          packetType = type_of_byte env packetTypeId;
          buff = reader_input buffer
      in case gzip_NewReader env buff of
           Some err \<Rightarrow> ([], Panic)
         | None \<Rightarrow>
             (let (sb, err) = io_Copy env buff;
                  written = length sb;
                  logged = (case err of
                              Some e \<Rightarrow> [Log (CopyError packetType (LibError e))]
                            | None \<Rightarrow> [])
              in if written = 0 then (logged @ [Log (EmptyPacket packetType)], Next)
                 else (let (evs, oc) = dispatch env l packetType sb
                       in (logged @ evs, oc))))"

text \<open>
  What the socket delivers to one call of ReadFromUDP: an error, or a datagram, of which
  the first \<open>n\<close> bytes (at most the length of the buffer) overwrite the start of the
  buffer; the rest of the buffer keeps what it held.
\<close>

datatype read_result = ReadError string | Datagram "byte list"

definition ReadFromUDP :: "byte list \<Rightarrow> byte list \<Rightarrow> nat \<times> byte list" where
  "ReadFromUDP buffer d =
     (let n = min (length d) (length buffer) in (n, take n d @ drop n buffer))"

text \<open>
  The loop, run on the list of results the socket will deliver; Open starts it once the
  socket is dialled. It ends when the active
  flag is false (\<open>Exited\<close>), waits in the read when the list is used up (\<open>Blocked\<close>),
  or has panicked (\<open>Panicked\<close>).
\<close>

datatype loop_end = Exited | Blocked | Panicked

fun serverListener_loop ::
  "'d env \<Rightarrow> 'd RemoteClientConnection \<Rightarrow> byte list \<Rightarrow> read_result list \<Rightarrow>
     'd event list \<times> loop_end"
where
  "serverListener_loop env l buffer [] = ([], if active l then Blocked else Exited)"
| "serverListener_loop env l buffer (r # rs) =
     (if \<not> active l then ([], Exited)
      else case r of
             ReadError err \<Rightarrow>
               (let (evs, e) = serverListener_loop env l buffer rs
                in (Log (SocketError (LibError err)) # evs, e))
           | Datagram d \<Rightarrow>
               (let (n, buffer') = ReadFromUDP buffer d
                in if n \<le> 0 then serverListener_loop env l buffer' rs
                   else (case serverListener_body env l buffer' of
                           (evs, Panic) \<Rightarrow> (evs, Panicked)
                         | (evs, Next) \<Rightarrow>
                             (let (evs', e) = serverListener_loop env l buffer' rs
                              in (evs @ evs', e)))))"

definition serverListener ::
  "'d env \<Rightarrow> 'd RemoteClientConnection \<Rightarrow> read_result list \<Rightarrow> 'd event list \<times> loop_end"
where
  "serverListener env l reads = serverListener_loop env l (replicate 4096 0) reads"

subsection \<open>Reading the events\<close>

fun submitted :: "'d event list \<Rightarrow> 'd NetPacket list" where
  "submitted [] = []"
| "submitted (Submitted p # evs) = p # submitted evs"
| "submitted (ev # evs) = submitted evs"

fun received :: "'d event list \<Rightarrow> 'd NetPacket list" where
  "received [] = []"
| "received (OnPacketReceived p # evs) = p # received evs"
| "received (ev # evs) = received evs"

fun udp_writes :: "'d event list \<Rightarrow> (UDPConn \<times> byte list) list" where
  "udp_writes [] = []"
| "udp_writes (UdpWrite c b # evs) = (c, b) # udp_writes evs"
| "udp_writes (ev # evs) = udp_writes evs"

fun resolved :: "'d event list \<Rightarrow> string list" where
  "resolved [] = []"
| "resolved (Resolve a # evs) = a # resolved evs"
| "resolved (ev # evs) = resolved evs"

fun is_log :: "'d event \<Rightarrow> bool" where
  "is_log (Log m) = True"
| "is_log ev = False"

text \<open>A datagram is dropped when all the loop does with it is write to the log.\<close>

definition only_logs :: "'d event list \<Rightarrow> bool" where
  "only_logs evs = (evs \<noteq> [] \<and> list_all is_log evs)"

text \<open>The tags whose case of the switch unmarshals into a structure and forwards it.\<close>

definition forwarded_types :: "NetPacketType set" where
  "forwarded_types = {GenerateMap, MovePlayer, UpdateServerInfo, AddPlayer}"

text \<open>The structure the switch fills for a forwarded tag.\<close>

fun structure_of :: "NetPacketType \<Rightarrow> 'd \<Rightarrow> 'd PacketData" where
  "structure_of GenerateMap = GenerateMapPacket"
| "structure_of MovePlayer = MovePlayerPacket"
| "structure_of UpdateServerInfo = UpdateServerInfoPacket"
| "structure_of t = AddPlayerPacket"

subsection \<open>What the libraries are relied on for\<close>

text \<open>
  The gzip reader recovers \<open>data\<close> from its compressed body when the bytes
  \<open>stale\<close> follow that body in the buffer.
\<close>

definition gunzip_recovers :: "'d env \<Rightarrow> byte list \<Rightarrow> byte list \<Rightarrow> bool" where
  "gunzip_recovers env data stale =
     (case gzip_Close env data of
        Inl err \<Rightarrow> True
      | Inr body \<Rightarrow>
          gzip_NewReader env (body @ stale) = None \<and>
          fst (io_Copy env (body @ stale)) = data)"

text \<open>
  json.Unmarshal, into the structure of type \<open>T\<close>, inverts json.Marshal on the
  structure \<open>p\<close>.
\<close>

definition json_inverts :: "'d env \<Rightarrow> NetPacketType \<Rightarrow> 'd \<Rightarrow> bool" where
  "json_inverts env T p =
     (case json_Marshal env (structure_of T p) of
        Inl err \<Rightarrow> True
      | Inr data \<Rightarrow> json_Unmarshal env T data = Inr p)"

subsection \<open>The address rule in the words of the specification\<close>

text \<open>
  The specification appends the default port to an address that specifies no port. An
  address specifies a port when it has the form host:port, the host free of colons, or
  [host]:port: the syntax of the net package, which is handed the string.
\<close>

definition spec_specifies_port :: "string \<Rightarrow> bool" where
  "spec_specifies_port s =
     (case dropWhile (\<lambda>c. c \<noteq> CHR '':'') (rev s) of
        [] \<Rightarrow> False
      | colon # rhost \<Rightarrow>
          (if rhost \<noteq> [] \<and> last rhost = CHR ''[''
           then hd rhost = CHR '']''
           else CHR '':'' \<notin> set rhost))"

definition spec_address :: "string \<Rightarrow> string" where
  "spec_address s = (if spec_specifies_port s then s else s @ '':6669'')"

subsection \<open>A small environment for closed examples\<close>

text \<open>
  The decoded structure is a byte string holding its own JSON text. The stand-in for
  JSON writes an id behind an opening brace; it writes a structure as it is when that is
  a text between braces and refuses it otherwise, so that nothing serializes to zero
  bytes; it reads back a text between braces. The stand-in for gzip writes the three bytes
  every gzip stream starts with, a length byte and the data. Its reader refuses another
  start. Its copy reads a second stream when one follows the first and appends its data,
  and reports an invalid header on any other bytes that follow, as the library does on the
  bytes a shorter datagram leaves in the buffer.
\<close>

definition braced :: "byte list \<Rightarrow> bool" where
  "braced s = (case s of [] \<Rightarrow> False | c # cs \<Rightarrow> c = 0x7B \<and> cs \<noteq> [] \<and> last cs = 0x7D)"

definition demo_structure :: "byte list \<Rightarrow> string + byte list" where
  "demo_structure d = (if braced d then Inr d else Inl ''json: unsupported value'')"

definition demo_Marshal :: "(byte list) PacketData \<Rightarrow> string + byte list" where
  "demo_Marshal p =
     (case p of
        PlayerConnectionRequestPacket uid st \<Rightarrow> Inr (0x7B # map (of_nat \<circ> of_char) uid @ st)
      | PlayerDisconnectRequestPacket uid \<Rightarrow> Inr (0x7B # map (of_nat \<circ> of_char) uid)
      | PongPacket uid \<Rightarrow> Inr (0x7B # map (of_nat \<circ> of_char) uid)
      | GenerateMapPacket d \<Rightarrow> demo_structure d
      | MovePlayerPacket d \<Rightarrow> demo_structure d
      | UpdateServerInfoPacket d \<Rightarrow> demo_structure d
      | AddPlayerPacket d \<Rightarrow> demo_structure d)"

definition demo_Unmarshal :: "NetPacketType \<Rightarrow> byte list \<Rightarrow> string + byte list" where
  "demo_Unmarshal t s =
     (case s of
        [] \<Rightarrow> Inl ''unexpected end of JSON input''
      | c # cs \<Rightarrow> if braced s then Inr s else Inl ''invalid character'')"

definition demo_gzip :: "byte list \<Rightarrow> byte list" where
  "demo_gzip data = [0x1F, 0x8B, 0x08, of_nat (length data)] @ data"

definition demo_NewReader :: "byte list \<Rightarrow> string option" where
  "demo_NewReader s =
     (if take 3 s = [0x1F, 0x8B, 0x08] then None else Some ''gzip: invalid header'')"

definition demo_stream :: "byte list \<Rightarrow> (byte list \<times> byte list) option" where
  "demo_stream s =
     (case drop 3 s of
        [] \<Rightarrow> None
      | len # rest \<Rightarrow> Some (take (unat len) rest, drop (unat len) rest))"

definition demo_Copy :: "byte list \<Rightarrow> byte list \<times> string option" where
  "demo_Copy s =
     (case demo_stream s of
        None \<Rightarrow> ([], Some ''unexpected EOF'')
      | Some (out, after) \<Rightarrow>
          if after = [] then (out, None)
          else if take 3 after = [0x1F, 0x8B, 0x08] then
            (case demo_stream after of
               None \<Rightarrow> (out, Some ''unexpected EOF'')
             | Some (out', after') \<Rightarrow>
                 (out @ out', if after' = [] then None else Some ''gzip: invalid header''))
          else (out, Some ''gzip: invalid header''))"

definition demo_byte_of_type :: "NetPacketType \<Rightarrow> byte" where
  "demo_byte_of_type t =
     (case t of
        UpdateServerInfo \<Rightarrow> 0 | GenerateMap \<Rightarrow> 1 | MovePlayer \<Rightarrow> 2 | AddPlayer \<Rightarrow> 3
      | PlayerConnectionRequest \<Rightarrow> 4 | PlayerDisconnectRequest \<Rightarrow> 5
      | PlayerDisconnectionNotification \<Rightarrow> 6 | Ping \<Rightarrow> 7 | Pong \<Rightarrow> 8
      | Reserved b \<Rightarrow> b)"

definition demo_type_of_byte :: "byte \<Rightarrow> NetPacketType" where
  "demo_type_of_byte b =
     (if b = 0 then UpdateServerInfo else if b = 1 then GenerateMap
      else if b = 2 then MovePlayer else if b = 3 then AddPlayer
      else if b = 4 then PlayerConnectionRequest else if b = 5 then PlayerDisconnectRequest
      else if b = 6 then PlayerDisconnectionNotification else if b = 7 then Ping
      else if b = 8 then Pong else Reserved b)"

definition demo_env :: "(byte list) env" where
  "demo_env =
     \<lparr>ResolveUDPAddr = (\<lambda>a. if a = ''127.0.0.1:6669'' then Inr a else Inl ''no such host''),
      DialUDP = (\<lambda>a. Inr (UDPConn a)),
      udp_Write = (\<lambda>c b. None),
      LoadPlayerState = (\<lambda>path. [0x7D]),
      json_Marshal = demo_Marshal,
      json_Unmarshal = demo_Unmarshal,
      gzip_Write = (\<lambda>data. None),
      gzip_Close = (\<lambda>data. Inr (demo_gzip data)),
      gzip_NewReader = demo_NewReader,
      io_Copy = demo_Copy,
      byte_of_type = demo_byte_of_type,
      type_of_byte = demo_type_of_byte\<rparr>"

text \<open>An open connection with a listener that accepts every packet.\<close>

definition demo_conn :: "(byte list) RemoteClientConnection" where
  "demo_conn =
     \<lparr>clientListener = Some (\<lambda>p. None), uniqueId = ''u1'',
      udpConnection = Some (UDPConn ''127.0.0.1:6669''), active = True\<rparr>"

section \<open>Properties\<close>

subsection \<open>Sending\<close>

lemma submitted_SendPacketToServer:
  "submitted (snd (SendPacketToServer env l p)) = [p]"
  by (simp add: SendPacketToServer_def Let_def split: sum.split option.split)

lemma received_SendPacketToServer:
  "received (snd (SendPacketToServer env l p)) = []"
  by (simp add: SendPacketToServer_def Let_def split: sum.split option.split)

lemma udp_writes_SendPacketToServer:
  "length (udp_writes (snd (SendPacketToServer env l p))) \<le> Suc 0"
  by (simp add: SendPacketToServer_def Let_def split: sum.split option.split)

lemma SendPacketToServer_sent:
  assumes "json_Marshal env (PacketData p) = Inr data" "data \<noteq> []"
    "gzip_Write env data = None" "gzip_Close env data = Inr body" "udpConnection l = Some c"
  shows "SendPacketToServer env l p =
           (Returns (map_option LibError (udp_Write env c (byte_of_type env (PacketType p) # body))),
            [Submitted p, UdpWrite c (byte_of_type env (PacketType p) # body)])"
  using assms by (simp add: SendPacketToServer_def Let_def)

lemma SendPacketToServer_ok_cases:
  assumes "SendPacketToServer env l p = (Returns None, evs)"
  obtains data body c where "json_Marshal env (PacketData p) = Inr data" "data \<noteq> []"
    "gzip_Close env data = Inr body" "udpConnection l = Some c"
    "evs = [Submitted p, UdpWrite c (byte_of_type env (PacketType p) # body)]"
  using assms
  by (auto simp: SendPacketToServer_def Let_def split: sum.splits option.splits if_splits)

text \<open>With a socket the send returns; it panics only at the write on a nil socket.\<close>

lemma SendPacketToServer_returns:
  "udpConnection l \<noteq> None \<Longrightarrow> \<exists>err. fst (SendPacketToServer env l p) = Returns err"
  by (auto simp: SendPacketToServer_def Let_def split: sum.splits option.splits)

lemma SendPacketToServer_panics:
  "fst (SendPacketToServer env l p) = Panics \<longleftrightarrow>
     udpConnection l = None \<and>
     (\<exists>data body. json_Marshal env (PacketData p) = Inr data \<and> data \<noteq> [] \<and>
        gzip_Write env data = None \<and> gzip_Close env data = Inr body)"
  by (auto simp: SendPacketToServer_def Let_def split: sum.splits option.splits)







subsection \<open>Close\<close>

lemma Close_parts:
  "Close env l =
     (l\<lparr>active := False\<rparr>,
      SendPacketToServer env (l\<lparr>active := False\<rparr>)
        (CreatePlayerDisconnectRequestPacket (uniqueId l)))"
  by (simp add: Close_def GetUniqueId_def Let_def split: prod.split option.split ret.split)

text \<open>
  C4. Close returns whenever the socket has been dialled, whether the send succeeds or
  returns an error. After every call of Close that returns, the active flag is false and
  exactly one packet has been handed to SendPacketToServer: the disconnect request made
  from this connection's id; at most one datagram has gone to the socket.
\<close>

theorem Close_inactive_one_disconnect:
  "(udpConnection l \<noteq> None \<longrightarrow> (\<exists>err. fst (snd (Close env l)) = Returns err)) \<and>
   (\<forall>err. fst (snd (Close env l)) = Returns err \<longrightarrow>
      \<not> active (fst (Close env l)) \<and>
      submitted (snd (snd (Close env l))) =
        [CreatePlayerDisconnectRequestPacket (uniqueId l)] \<and>
      length (udp_writes (snd (snd (Close env l)))) \<le> 1)"
  using udp_writes_SendPacketToServer
    [of env "l\<lparr>active := False\<rparr>" "CreatePlayerDisconnectRequestPacket (uniqueId l)"]
    SendPacketToServer_returns
    [of "l\<lparr>active := False\<rparr>" env "CreatePlayerDisconnectRequestPacket (uniqueId l)"]
  by (simp add: Close_parts submitted_SendPacketToServer)

theorem Close_inactive_one_disconnect_witness:
  "fst (snd (Close demo_env demo_conn)) = Returns None \<and>
   \<not> active (fst (Close demo_env demo_conn)) \<and>
   submitted (snd (snd (Close demo_env demo_conn))) =
     [CreatePlayerDisconnectRequestPacket ''u1'']"
proof -
  have r: "fst (snd (Close demo_env demo_conn)) = Returns None"
    by (simp add: Close_parts SendPacketToServer_def demo_env_def demo_conn_def
          demo_Marshal_def CreatePlayerDisconnectRequestPacket_def)
  from Close_inactive_one_disconnect [of demo_conn demo_env] r
  show ?thesis by (simp add: demo_conn_def)
qed

text \<open>
  On a connection that was never opened, or whose Open failed, the socket is nil: Close
  clears the flag, and panics at the write once the request is serialized and compressed.
\<close>

lemma Close_panics_without_socket:
  assumes "udpConnection l = None"
    and "json_Marshal env (PacketData (CreatePlayerDisconnectRequestPacket (uniqueId l) :: 'd NetPacket)) = Inr data"
    and "data \<noteq> []" and "gzip_Write env data = None" and "gzip_Close env data = Inr body"
  shows "fst (snd (Close env (l :: 'd RemoteClientConnection))) = Panics"
  using assms SendPacketToServer_panics
    [of env "l\<lparr>active := False\<rparr>" "CreatePlayerDisconnectRequestPacket (uniqueId l)"]
  by (auto simp: Close_parts)

subsection \<open>Open\<close>

lemma HasPrefix_colon: "HasPrefix s '':'' \<longleftrightarrow> (s \<noteq> [] \<and> hd s = CHR '':'')"
  by (cases s) auto

lemma Contains_colon: "Contains s '':'' \<longleftrightarrow> CHR '':'' \<in> set s"
  by (induction s) (auto simp: HasPrefix_colon)

lemma resolved_Open:
  "resolved (snd (snd (Open env l cs path))) =
     [if Contains cs '':'' then cs else cs @ '':6669'']"
  by (simp add: Open_def Let_def SendPacketToServer_def
        split: sum.split option.split prod.split ret.split)

text \<open>
  C7, as the code has it. The address Open resolves is the input with \<open>:6669\<close>
  appended when the input contains no colon, and the input itself otherwise.
\<close>

theorem Open_resolves_default_port:
  "resolved (snd (snd (Open env l cs path))) =
     [if CHR '':'' \<in> set cs then cs else cs @ '':6669'']"
  by (simp add: resolved_Open Contains_colon)

text \<open>
  C7, as stated, fails: the bracketed IPv6 address \<open>[::1]\<close> specifies no port, yet it
  is resolved as it is, without the default port.
\<close>

theorem Open_port_counterexample:
  "\<not> spec_specifies_port ''[::1]'' \<and> spec_address ''[::1]'' = ''[::1]:6669'' \<and>
   resolved (snd (snd (Open demo_env (Create ''u1'') ''[::1]'' ''save''))) = [''[::1]'']"
  by (simp add: spec_specifies_port_def spec_address_def resolved_Open)

text \<open>
  The two rules part only on an address that contains a colon and specifies no port.
\<close>

lemma spec_specifies_port_colon: "spec_specifies_port s \<Longrightarrow> CHR '':'' \<in> set s"
proof (rule ccontr)
  assume p: "spec_specifies_port s" and "CHR '':'' \<notin> set s"
  then have "dropWhile (\<lambda>c. c \<noteq> CHR '':'') (rev s) = []"
    by (auto simp: dropWhile_eq_Nil_conv)
  with p show False by (simp add: spec_specifies_port_def)
qed

lemma spec_address_agrees:
  "(CHR '':'' \<in> set s \<longrightarrow> spec_specifies_port s) \<Longrightarrow>
     spec_address s = (if CHR '':'' \<in> set s then s else s @ '':6669'')"
  using spec_specifies_port_colon [of s] by (auto simp: spec_address_def)

lemma Open_resolve_fails:
  assumes "addr = (if Contains cs '':'' then cs else cs @ '':6669'')"
    and "ResolveUDPAddr env addr = Inl e"
  shows "Open env l cs path = (l, Returns (Some (LibError e)), [Resolve addr])"
proof (cases "Contains cs '':''")
  case True
  with assms show ?thesis by (simp add: Open_def)
next
  case False
  with assms show ?thesis by (simp add: Open_def)
qed

lemma Open_dial_fails:
  assumes "addr = (if Contains cs '':'' then cs else cs @ '':6669'')"
    and "ResolveUDPAddr env addr = Inr a" and "DialUDP env a = Inl e"
  shows "Open env l cs path =
           (l\<lparr>udpConnection := None\<rparr>, Returns (Some (LibError e)),
            [Resolve addr, Dial a])"
proof (cases "Contains cs '':''")
  case True
  with assms show ?thesis by (simp add: Open_def)
next
  case False
  with assms show ?thesis by (simp add: Open_def)
qed

lemma Open_dialled:
  assumes "addr = (if Contains cs '':'' then cs else cs @ '':6669'')"
    and "ResolveUDPAddr env addr = Inr a" and "DialUDP env a = Inr c"
    and "SendPacketToServer env (l\<lparr>udpConnection := Some c, active := True\<rparr>)
           (CreatePlayerConnectionRequestPacket (uniqueId l) (LoadPlayerState env path)) =
         (err, evs)"
  shows "Open env l cs path =
           (l\<lparr>udpConnection := Some c, active := True\<rparr>, err,
            [Resolve addr, Dial a, GoServerListener, Log (ConnectedTo a)] @ evs @
            (case err of Returns (Some e) \<Rightarrow> [Log ConnectionRequestFailed] | _ \<Rightarrow> []))"
proof (cases "Contains cs '':''")
  case True
  with assms show ?thesis
    by (auto simp add: Open_def Let_def GetUniqueId_def split: option.split ret.split)
next
  case False
  with assms show ?thesis
    by (auto simp add: Open_def Let_def GetUniqueId_def split: option.split ret.split)
qed

lemma loop_never_Exited:
  "active l \<Longrightarrow> serverListener_loop env l buffer reads \<noteq> (evs, Exited)"
  by (induction reads arbitrary: buffer evs)
     (auto split: read_result.splits prod.splits outcome.splits if_splits)

lemma loop_not_Exited:
  "active l \<Longrightarrow> snd (serverListener_loop env l buffer reads) \<noteq> Exited"
  using loop_never_Exited [of l env buffer reads]
  by (cases "serverListener_loop env l buffer reads") auto

text \<open>
  C5. When the address resolves and the socket is dialled but sending the connection
  request fails, Open returns that error, the active flag is true, the receive loop has
  been started, and the loop never leaves through its exit condition.
\<close>

theorem Open_send_failure_stays_active:
  assumes "ResolveUDPAddr env (if CHR '':'' \<in> set cs then cs else cs @ '':6669'') = Inr a"
    and "DialUDP env a = Inr c"
    and "fst (SendPacketToServer env (l\<lparr>udpConnection := Some c, active := True\<rparr>)
           (CreatePlayerConnectionRequestPacket (uniqueId l) (LoadPlayerState env path))) =
         Returns (Some e)"
  shows "fst (snd (Open env l cs path)) = Returns (Some e) \<and>
         active (fst (Open env l cs path)) \<and>
         GoServerListener \<in> set (snd (snd (Open env l cs path))) \<and>
         (\<forall>reads. snd (serverListener env (fst (Open env l cs path)) reads) \<noteq> Exited)"
proof -
  obtain err evs where s:
    "SendPacketToServer env (l\<lparr>udpConnection := Some c, active := True\<rparr>)
       (CreatePlayerConnectionRequestPacket (uniqueId l) (LoadPlayerState env path)) = (err, evs)"
    by (cases "SendPacketToServer env (l\<lparr>udpConnection := Some c, active := True\<rparr>)
       (CreatePlayerConnectionRequestPacket (uniqueId l) (LoadPlayerState env path))") simp
  from s assms(3) have e: "err = Returns (Some e)" by simp
  have addr: "(if CHR '':'' \<in> set cs then cs else cs @ '':6669'') =
              (if Contains cs '':'' then cs else cs @ '':6669'')"
    by (simp add: Contains_colon)
  have o: "Open env l cs path =
           (l\<lparr>udpConnection := Some c, active := True\<rparr>, Returns (Some e),
            [Resolve (if CHR '':'' \<in> set cs then cs else cs @ '':6669''), Dial a,
             GoServerListener, Log (ConnectedTo a)] @ evs @ [Log ConnectionRequestFailed])"
    using Open_dialled [OF addr assms(1) assms(2) s] e by simp
  show ?thesis
    by (simp add: o serverListener_def loop_not_Exited)
qed

theorem Open_send_failure_stays_active_witness:
  "fst (snd (Open (demo_env\<lparr>udp_Write := \<lambda>c b. Some ''connection refused''\<rparr>)
               (Create ''u1'') ''127.0.0.1'' ''save'')) =
     Returns (Some (LibError ''connection refused'')) \<and>
   active (fst (Open (demo_env\<lparr>udp_Write := \<lambda>c b. Some ''connection refused''\<rparr>)
               (Create ''u1'') ''127.0.0.1'' ''save'')) \<and>
   GoServerListener \<in> set (snd (snd (Open (demo_env\<lparr>udp_Write := \<lambda>c b. Some ''connection refused''\<rparr>)
               (Create ''u1'') ''127.0.0.1'' ''save'')))"
  using Open_send_failure_stays_active
    [of "demo_env\<lparr>udp_Write := \<lambda>c b. Some ''connection refused''\<rparr>" "''127.0.0.1''"
        "''127.0.0.1:6669''" "UDPConn ''127.0.0.1:6669''" "Create ''u1''" "''save''"
        "LibError ''connection refused''"]
  by (simp add: demo_env_def SendPacketToServer_def demo_Marshal_def
        CreatePlayerConnectionRequestPacket_def Create_def)

text \<open>
  C6. When resolving the address fails, or dialling the resolved address fails, Open
  returns that error at once; a connection that was inactive stays inactive, no receive
  loop is started, and nothing is sent.
\<close>

theorem Open_failure_stays_inactive:
  assumes "\<not> active l"
    and "addr = (if CHR '':'' \<in> set cs then cs else cs @ '':6669'')"
    and "ResolveUDPAddr env addr = Inl e \<or>
         (\<exists>a. ResolveUDPAddr env addr = Inr a \<and> DialUDP env a = Inl e)"
  shows "fst (snd (Open env l cs path)) = Returns (Some (LibError e)) \<and>
         \<not> active (fst (Open env l cs path)) \<and>
         GoServerListener \<notin> set (snd (snd (Open env l cs path))) \<and>
         submitted (snd (snd (Open env l cs path))) = [] \<and>
         udp_writes (snd (snd (Open env l cs path))) = []"
proof -
  have addr: "addr = (if Contains cs '':'' then cs else cs @ '':6669'')"
    using assms(2) by (simp add: Contains_colon)
  from assms(3) show ?thesis
  proof
    assume "ResolveUDPAddr env addr = Inl e"
    from Open_resolve_fails [OF addr this] assms(1) show ?thesis by simp
  next
    assume "\<exists>a. ResolveUDPAddr env addr = Inr a \<and> DialUDP env a = Inl e"
    then obtain a where "ResolveUDPAddr env addr = Inr a" "DialUDP env a = Inl e" by blast
    from Open_dial_fails [OF addr this] assms(1) show ?thesis by simp
  qed
qed

theorem Open_failure_stays_inactive_witness:
  "fst (snd (Open demo_env (Create ''u1'') ''256.256.256.256:1'' ''save'')) =
     Returns (Some (LibError ''no such host'')) \<and>
   \<not> active (fst (Open demo_env (Create ''u1'') ''256.256.256.256:1'' ''save'')) \<and>
   GoServerListener \<notin> set (snd (snd (Open demo_env (Create ''u1'') ''256.256.256.256:1'' ''save'')))"
  using Open_failure_stays_inactive
    [of "Create ''u1''" "''256.256.256.256:1''" "''256.256.256.256:1''" demo_env "''no such host''" "''save''"]
  by (simp add: demo_env_def Create_def)

subsection \<open>Forwarding\<close>

lemma dispatch_forwarded:
  "packetType \<in> forwarded_types \<Longrightarrow>
     dispatch env l packetType stringData =
       forward env l packetType (structure_of packetType) stringData"
  by (auto simp: forwarded_types_def dispatch_def)

text \<open>
  C9. With no listener installed, SendPacketToClient has no result, and handling a
  forwardable packet that unmarshalled well panics instead of returning an error; the
  receive loop ends there.
\<close>

theorem nil_listener_forwarding_panics:
  assumes "clientListener l = None"
    and "packetType \<in> forwarded_types"
    and "json_Unmarshal env packetType stringData = Inr packet"
  shows "SendPacketToClient l
           \<lparr>PacketType = packetType, PacketData = structure_of packetType packet\<rparr> = None \<and>
         dispatch env l packetType stringData = ([], Panic)"
  using assms by (simp add: dispatch_forwarded forward_def SendPacketToClient_def)

theorem nil_listener_forwarding_panics_witness:
  "SendPacketToClient (Create ''u1'')
     \<lparr>PacketType = GenerateMap, PacketData = GenerateMapPacket [0x7B, 0x7D :: byte]\<rparr> = None \<and>
   dispatch demo_env (Create ''u1'') GenerateMap [0x7B, 0x7D] = ([], Panic)"
  using nil_listener_forwarding_panics
    [of "Create ''u1''" GenerateMap demo_env "[0x7B, 0x7D]" "[0x7B, 0x7D]"]
  by (simp add: demo_env_def Create_def demo_Unmarshal_def braced_def forwarded_types_def)

subsection \<open>The receive loop\<close>

lemma ReadFromUDP_fits:
  "length d \<le> length buffer \<Longrightarrow>
     ReadFromUDP buffer d = (length d, d @ drop (length d) buffer)"
  by (simp add: ReadFromUDP_def Let_def min_def)

lemma length_ReadFromUDP:
  "length (snd (ReadFromUDP buffer d)) = length buffer"
  by (simp add: ReadFromUDP_def Let_def min_def)

lemma loop_Datagram_Next:
  assumes "active l" and "ReadFromUDP buffer d = (n, buffer')" and "0 < n"
    and "snd (serverListener_body env l buffer') = Next"
  shows "serverListener_loop env l buffer (Datagram d # rs) =
           (fst (serverListener_body env l buffer') @
              fst (serverListener_loop env l buffer' rs),
            snd (serverListener_loop env l buffer' rs))"
  using assms
  by (cases "serverListener_body env l buffer'")
     (simp split: prod.split)

lemma loop_single_Datagram:
  assumes "active l" and "ReadFromUDP buffer d = (n, buffer')" and "0 < n"
  shows "fst (serverListener_loop env l buffer [Datagram d]) =
           fst (serverListener_body env l buffer')"
  using assms
  by (cases "serverListener_body env l buffer'")
     (simp split: prod.split outcome.split)

lemma serverListener_body_copied:
  assumes "gzip_NewReader env (reader_input buffer) = None"
    and "io_Copy env (reader_input buffer) = (sb, err)"
    and "packetType = type_of_byte env (packetTypeId_of buffer)"
  shows "serverListener_body env l buffer =
           (if sb = []
            then ((case err of Some e \<Rightarrow> [Log (CopyError packetType (LibError e))]
                   | None \<Rightarrow> []) @ [Log (EmptyPacket packetType)], Next)
            else ((case err of Some e \<Rightarrow> [Log (CopyError packetType (LibError e))]
                   | None \<Rightarrow> []) @ fst (dispatch env l packetType sb),
                  snd (dispatch env l packetType sb)))"
  using assms(1,2) unfolding assms(3)
  by (simp add: serverListener_body_def Let_def split: prod.split)

lemma dispatch_Ping:
  "fst (SendPacketToServer env l (CreatePongPacket (uniqueId l))) = Returns err \<Longrightarrow>
   dispatch env l Ping stringData =
     (snd (SendPacketToServer env l (CreatePongPacket (uniqueId l))) @
        (case err of Some e \<Rightarrow> [Log (PingResponseError e)] | None \<Rightarrow> []),
      Next)"
  by (cases "SendPacketToServer env l (CreatePongPacket (uniqueId l))")
     (auto simp: dispatch_def split: option.split)

lemma submitted_append: "submitted (xs @ ys) = submitted xs @ submitted ys"
  by (induction xs rule: submitted.induct) auto

lemma received_append: "received (xs @ ys) = received xs @ received ys"
  by (induction xs rule: received.induct) auto

lemma udp_writes_append: "udp_writes (xs @ ys) = udp_writes xs @ udp_writes ys"
  by (induction xs rule: udp_writes.induct) auto

lemma copy_log_silent:
  "submitted (case err of Some e \<Rightarrow> [Log (m e)] | None \<Rightarrow> []) = []"
  "received (case err of Some e \<Rightarrow> [Log (m e)] | None \<Rightarrow> []) = []"
  "udp_writes (case err of Some e \<Rightarrow> [Log (m e)] | None \<Rightarrow> []) = []"
  by (simp_all split: option.split)


text \<open>
  A stream that gzip.NewReader refuses ends the loop: the reader is nil, the error is
  never looked at, and io.Copy reads from nil.
\<close>

lemma invalid_header_panics:
  "gzip_NewReader env (reader_input buffer) = Some e \<Longrightarrow>
     serverListener_body env l buffer = ([], Panic)"
  by (simp add: serverListener_body_def)

text \<open>
  C10. With a buffer of 4096 bytes and a datagram of fewer bytes, the read overwrites the
  first bytes only; the loop body is run on all 4096 bytes; the gzip reader is given the
  4095 bytes after the tag; and every position from the datagram's length on holds what
  the buffer held before the read. What the loop body does with the datagram is decided
  by what gzip.NewReader and io.Copy make of those 4095 bytes, the datagram's body
  followed by what the buffer held: a refused header panics, no bytes are logged as an
  empty packet, and any bytes are dispatched under the datagram's tag.
\<close>

theorem decoder_reads_whole_buffer:
  assumes "length buffer = 4096" and "length d < 4096"
  shows "ReadFromUDP buffer d = (length d, d @ drop (length d) buffer) \<and>
         length (snd (ReadFromUDP buffer d)) = 4096 \<and>
         length (reader_input (snd (ReadFromUDP buffer d))) = 4095 \<and>
         (\<forall>i. length d \<le> i \<and> i < 4096 \<longrightarrow> snd (ReadFromUDP buffer d) ! i = buffer ! i) \<and>
         (\<forall>j. length d \<le> Suc j \<and> Suc j < 4096 \<longrightarrow>
              reader_input (snd (ReadFromUDP buffer d)) ! j = buffer ! Suc j) \<and>
         (active l \<and> d \<noteq> [] \<longrightarrow>
            fst (serverListener_loop env l buffer [Datagram d]) =
              fst (serverListener_body env l (d @ drop (length d) buffer))) \<and>
         (d \<noteq> [] \<longrightarrow>
            (\<forall>e. gzip_NewReader env (tl d @ drop (length d) buffer) = Some e \<longrightarrow>
                 serverListener_body env l (snd (ReadFromUDP buffer d)) = ([], Panic)) \<and>
            (\<forall>sb err.
                 gzip_NewReader env (tl d @ drop (length d) buffer) = None \<and>
                 io_Copy env (tl d @ drop (length d) buffer) = (sb, err) \<longrightarrow>
                 serverListener_body env l (snd (ReadFromUDP buffer d)) =
                   (if sb = []
                    then ((case err of
                             Some e \<Rightarrow> [Log (CopyError (type_of_byte env (hd d)) (LibError e))]
                           | None \<Rightarrow> []) @ [Log (EmptyPacket (type_of_byte env (hd d)))], Next)
                    else ((case err of
                             Some e \<Rightarrow> [Log (CopyError (type_of_byte env (hd d)) (LibError e))]
                           | None \<Rightarrow> []) @ fst (dispatch env l (type_of_byte env (hd d)) sb),
                          snd (dispatch env l (type_of_byte env (hd d)) sb)))))"
proof -
  have r: "ReadFromUDP buffer d = (length d, d @ drop (length d) buffer)"
    using assms by (simp add: ReadFromUDP_fits)
  have len: "length (d @ drop (length d) buffer) = 4096"
    using assms by simp
  have nth: "(d @ drop (length d) buffer) ! i = buffer ! i" if "length d \<le> i" "i < 4096" for i
    using that assms by (simp add: nth_append)
  obtain b rest where br: "d @ drop (length d) buffer = b # rest"
    using len by (cases "d @ drop (length d) buffer") auto
  have ri: "reader_input (d @ drop (length d) buffer) = rest"
    by (simp add: reader_input_def br)
  have rlen: "length rest = 4095"
    using len br by simp
  have rnth: "rest ! j = buffer ! Suc j" if "length d \<le> Suc j" "Suc j < 4096" for j
    using nth [of "Suc j"] that br by simp
  have loop: "fst (serverListener_loop env l buffer [Datagram d]) =
              fst (serverListener_body env l (d @ drop (length d) buffer))"
    if "active l" "d \<noteq> []"
    using loop_single_Datagram [OF that(1) r] that(2) by simp
  have stream: "rest = tl d @ drop (length d) buffer" and tag: "b = hd d" if "d \<noteq> []"
    using br that by (cases d; simp)+
  have pt: "packetTypeId_of (d @ drop (length d) buffer) = hd d" if "d \<noteq> []"
    using tag [OF that] by (simp add: packetTypeId_of_def br)
  have refused: "serverListener_body env l (d @ drop (length d) buffer) = ([], Panic)"
    if "d \<noteq> []" "gzip_NewReader env (tl d @ drop (length d) buffer) = Some e" for e
    using invalid_header_panics [of env "d @ drop (length d) buffer" e l] that ri stream
    by simp
  have copied: "serverListener_body env l (d @ drop (length d) buffer) =
                   (if sb = []
                    then ((case err of
                             Some e \<Rightarrow> [Log (CopyError (type_of_byte env (hd d)) (LibError e))]
                           | None \<Rightarrow> []) @ [Log (EmptyPacket (type_of_byte env (hd d)))], Next)
                    else ((case err of
                             Some e \<Rightarrow> [Log (CopyError (type_of_byte env (hd d)) (LibError e))]
                           | None \<Rightarrow> []) @ fst (dispatch env l (type_of_byte env (hd d)) sb),
                          snd (dispatch env l (type_of_byte env (hd d)) sb)))"
    if "d \<noteq> []" "gzip_NewReader env (tl d @ drop (length d) buffer) = None"
       "io_Copy env (tl d @ drop (length d) buffer) = (sb, err)" for sb err
  proof -
    have n: "gzip_NewReader env (reader_input (d @ drop (length d) buffer)) = None"
      using that(1,2) ri stream by simp
    have c: "io_Copy env (reader_input (d @ drop (length d) buffer)) = (sb, err)"
      using that(1,3) ri stream by simp
    have t: "type_of_byte env (hd d) =
             type_of_byte env (packetTypeId_of (d @ drop (length d) buffer))"
      using pt [OF that(1)] by simp
    show ?thesis
      by (rule serverListener_body_copied [OF n c t])
  qed
  show ?thesis
    using r len nth ri rlen rnth loop refused copied by simp
qed

lemma zeros_no_header: "replicate k (0 :: byte) \<noteq> [0x1F, 0x8B, 0x08]"
  by (cases k) simp_all

theorem decoder_reads_whole_buffer_witness:
  "length (reader_input (snd (ReadFromUDP
     ([1, 0x1F, 0x8B, 0x08, 5, 0x7B, 0x41, 0x42, 0x43, 0x7D] @ replicate 4086 0)
     [1, 0x1F, 0x8B, 0x08, 5, 0x7B]))) = 4095 \<and>
   serverListener_body demo_env demo_conn
     (snd (ReadFromUDP
        ([1, 0x1F, 0x8B, 0x08, 5, 0x7B, 0x41, 0x42, 0x43, 0x7D] @ replicate 4086 0)
        [1, 0x1F, 0x8B, 0x08, 5, 0x7B])) =
     ([Log (CopyError GenerateMap (LibError ''gzip: invalid header'')),
       OnPacketReceived
         \<lparr>PacketType = GenerateMap,
          PacketData = GenerateMapPacket [0x7B, 0x41, 0x42, 0x43, 0x7D]\<rparr>],
      Next)"
proof -
  let ?buffer = "[1, 0x1F, 0x8B, 0x08, 5, 0x7B, 0x41, 0x42, 0x43, 0x7D] @ replicate 4086 (0 :: byte)"
  let ?d = "[1, 0x1F, 0x8B, 0x08, 5, 0x7B :: byte]"
  let ?stream = "tl ?d @ drop (length ?d) ?buffer"
  have h1: "length ?buffer = 4096" by simp
  have h2: "length ?d < 4096" by simp
  have n: "gzip_NewReader demo_env ?stream = None"
    by (simp add: demo_env_def demo_NewReader_def)
  have c: "io_Copy demo_env ?stream =
             ([0x7B, 0x41, 0x42, 0x43, 0x7D], Some ''gzip: invalid header'')"
    by (simp add: demo_env_def demo_Copy_def demo_stream_def zeros_no_header)
  have t: "type_of_byte demo_env (hd ?d) = GenerateMap"
    by (simp add: demo_env_def demo_type_of_byte_def)
  have f: "dispatch demo_env demo_conn GenerateMap [0x7B, 0x41, 0x42, 0x43, 0x7D] =
             ([OnPacketReceived
                 \<lparr>PacketType = GenerateMap,
                  PacketData = GenerateMapPacket [0x7B, 0x41, 0x42, 0x43, 0x7D]\<rparr>], Next)"
    by (simp add: dispatch_def forward_def SendPacketToClient_def demo_env_def demo_conn_def
          demo_Unmarshal_def braced_def)
  from decoder_reads_whole_buffer [OF h1 h2, of demo_conn demo_env]
  have "length (reader_input (snd (ReadFromUDP ?buffer ?d))) = 4095"
    and "\<forall>sb err. gzip_NewReader demo_env ?stream = None \<and>
            io_Copy demo_env ?stream = (sb, err) \<longrightarrow>
            serverListener_body demo_env demo_conn (snd (ReadFromUDP ?buffer ?d)) =
              (if sb = []
               then ((case err of
                        Some e \<Rightarrow> [Log (CopyError (type_of_byte demo_env (hd ?d)) (LibError e))]
                      | None \<Rightarrow> []) @ [Log (EmptyPacket (type_of_byte demo_env (hd ?d)))], Next)
               else ((case err of
                        Some e \<Rightarrow> [Log (CopyError (type_of_byte demo_env (hd ?d)) (LibError e))]
                      | None \<Rightarrow> []) @ fst (dispatch demo_env demo_conn (type_of_byte demo_env (hd ?d)) sb),
                     snd (dispatch demo_env demo_conn (type_of_byte demo_env (hd ?d)) sb)))"
    by blast+
  from this(1) this(2) [rule_format, OF conjI [OF n c]] t f
  show ?thesis by simp
qed

lemma demo_buffer:
  "ReadFromUDP (replicate 4096 0) [7, 0x1F, 0x8B, 0x08, 1, 0x7B] =
     (6, 7 # 0x1F # 0x8B # 0x08 # 1 # 0x7B # replicate 4090 0)"
  by (simp add: ReadFromUDP_def)

text \<open>
  C8. When the loop of an active connection, on its dialled socket, reads a datagram with
  the ping tag whose body decompresses to at least one byte, it hands exactly one packet
  to SendPacketToServer,
  the pong made from this connection's id, never calls the listener, and goes on with the
  next read. When that pong serializes and compresses and the socket is there, exactly one
  datagram goes to the socket: the pong's tag byte and its compressed body.
\<close>

theorem ping_answered_with_one_pong:
  assumes "active l" and "ReadFromUDP buffer d = (n, buffer')" and "0 < n"
    and "type_of_byte env (packetTypeId_of buffer') = Ping"
    and "gzip_NewReader env (reader_input buffer') = None"
    and "fst (io_Copy env (reader_input buffer')) \<noteq> []"
    and "evs = fst (serverListener_body env l buffer')"
    and "udpConnection l \<noteq> None"
  shows "serverListener_loop env l buffer (Datagram d # rs) =
           (evs @ fst (serverListener_loop env l buffer' rs),
            snd (serverListener_loop env l buffer' rs)) \<and>
         submitted evs = [CreatePongPacket (uniqueId l)] \<and>
         received evs = [] \<and>
         length (udp_writes evs) \<le> 1 \<and>
         (\<forall>data body c.
            json_Marshal env (PacketData (CreatePongPacket (uniqueId l) :: 'd NetPacket)) = Inr data \<and>
            data \<noteq> [] \<and> gzip_Write env data = None \<and> gzip_Close env data = Inr body \<and>
            udpConnection l = Some c \<longrightarrow>
            udp_writes evs =
              [(c, byte_of_type env (PacketType (CreatePongPacket (uniqueId l) :: 'd NetPacket)) # body)])"
proof -
  obtain sb err where c: "io_Copy env (reader_input buffer') = (sb, err)"
    by (cases "io_Copy env (reader_input buffer')") simp
  with assms(6) have sb: "sb \<noteq> []" by simp
  let ?logged = "case err of Some e \<Rightarrow> [Log (CopyError Ping (LibError e))] | None \<Rightarrow> []"
  let ?send = "SendPacketToServer env l (CreatePongPacket (uniqueId l))"
  from SendPacketToServer_returns [OF assms(8), of env "CreatePongPacket (uniqueId l)"]
  obtain r where r: "fst ?send = Returns r" by blast
  let ?after = "case r of Some e \<Rightarrow> [Log (PingResponseError e)] | None \<Rightarrow> []"
  have body: "serverListener_body env l buffer' = (?logged @ snd ?send @ ?after, Next)"
    using serverListener_body_copied [OF assms(5) c assms(4) [symmetric], of l] sb
    by (simp add: dispatch_Ping [OF r])
  have evs: "evs = ?logged @ snd ?send @ ?after"
    using assms(7) body by simp
  have loop: "serverListener_loop env l buffer (Datagram d # rs) =
           (evs @ fst (serverListener_loop env l buffer' rs),
            snd (serverListener_loop env l buffer' rs))"
    using loop_Datagram_Next [OF assms(1,2,3), of env rs] body assms(7) by simp
  have sub: "submitted evs = [CreatePongPacket (uniqueId l)]"
    by (simp add: evs submitted_append copy_log_silent submitted_SendPacketToServer)
  have rec: "received evs = []"
    by (simp add: evs received_append copy_log_silent received_SendPacketToServer)
  have uw: "udp_writes evs = udp_writes (snd ?send)"
    by (simp add: evs udp_writes_append copy_log_silent)
  have len: "length (udp_writes evs) \<le> 1"
    using udp_writes_SendPacketToServer [of env l "CreatePongPacket (uniqueId l)"]
    by (simp add: uw)
  have sent: "udp_writes evs =
      [(c, byte_of_type env (PacketType (CreatePongPacket (uniqueId l) :: 'd NetPacket)) # body)]"
    if "json_Marshal env (PacketData (CreatePongPacket (uniqueId l) :: 'd NetPacket)) = Inr data"
      "data \<noteq> []" "gzip_Write env data = None" "gzip_Close env data = Inr body"
      "udpConnection l = Some c" for data body c
    using SendPacketToServer_sent [OF that] by (simp add: uw)
  show ?thesis
    using loop sub rec len sent by blast
qed

theorem ping_answered_with_one_pong_witness:
  "serverListener_loop demo_env demo_conn (replicate 4096 0)
     [Datagram [7, 0x1F, 0x8B, 0x08, 1, 0x7B]] =
     ([Log (CopyError Ping (LibError ''gzip: invalid header'')),
       Submitted \<lparr>PacketType = Pong, PacketData = PongPacket ''u1''\<rparr>,
       UdpWrite (UDPConn ''127.0.0.1:6669'') [8, 0x1F, 0x8B, 0x08, 3, 0x7B, 0x75, 0x31]],
      Blocked)"
proof -
  let ?b = "7 # 0x1F # 0x8B # 0x08 # 1 # 0x7B # replicate 4090 (0 :: byte)"
  have h1: "active demo_conn" by (simp add: demo_conn_def)
  have h3: "0 < (6 :: nat)" by simp
  have h4: "type_of_byte demo_env (packetTypeId_of ?b) = Ping"
    by (simp add: demo_env_def packetTypeId_of_def demo_type_of_byte_def)
  have h5: "gzip_NewReader demo_env (reader_input ?b) = None"
    by (simp add: demo_env_def reader_input_def demo_NewReader_def)
  have h6: "fst (io_Copy demo_env (reader_input ?b)) \<noteq> []"
    by (simp add: demo_env_def reader_input_def demo_Copy_def demo_stream_def zeros_no_header)
  have body: "fst (serverListener_body demo_env demo_conn ?b) =
     [Log (CopyError Ping (LibError ''gzip: invalid header'')),
       Submitted \<lparr>PacketType = Pong, PacketData = PongPacket ''u1''\<rparr>,
       UdpWrite (UDPConn ''127.0.0.1:6669'') [8, 0x1F, 0x8B, 0x08, 3, 0x7B, 0x75, 0x31]]"
    by (simp add: serverListener_body_def demo_env_def reader_input_def packetTypeId_of_def
          demo_type_of_byte_def demo_NewReader_def demo_Copy_def demo_stream_def zeros_no_header dispatch_def
          SendPacketToServer_def CreatePongPacket_def demo_conn_def demo_Marshal_def
          demo_gzip_def demo_byte_of_type_def)
  have h8: "udpConnection demo_conn \<noteq> None" by (simp add: demo_conn_def)
  from ping_answered_with_one_pong [OF h1 demo_buffer h3 h4 h5 h6 refl h8, of "[]"]
  show ?thesis by (simp add: body h1)
qed

lemma dispatch_unmarshal_fails:
  assumes "packetType \<in> insert PlayerDisconnectionNotification forwarded_types"
    and "json_Unmarshal env packetType sb = Inl e"
  shows "dispatch env l packetType sb =
           ([Log (UnmarshalFailed packetType (LibError e))], Next)"
  using assms by (auto simp: forwarded_types_def dispatch_def forward_def)

lemma only_logs_copy_log:
  "only_logs ((case err of Some e \<Rightarrow> [Log (m e)] | None \<Rightarrow> []) @ [Log m'])"
  by (simp add: only_logs_def split: option.split)

text \<open>
  C1, as the code has it. When the loop of an active connection has read a datagram and
  the gzip reader could be made, then: if decompression gave no bytes, or the bytes fail
  to unmarshal into the structure of a forwarding or disconnect-notification tag, the
  loop writes to the log, does nothing else with the datagram, and goes on with the next
  read; if decompression gave at least one byte, an error of the copy is logged and the
  datagram is dispatched all the same.
\<close>

theorem decode_failure_logged_and_dropped:
  assumes "active l" and "ReadFromUDP buffer d = (n, buffer')" and "0 < n"
    and "gzip_NewReader env (reader_input buffer') = None"
    and "io_Copy env (reader_input buffer') = (sb, err)"
    and "packetType = type_of_byte env (packetTypeId_of buffer')"
    and "evs = fst (serverListener_body env l buffer')"
  shows "((sb = [] \<or>
           (packetType \<in> insert PlayerDisconnectionNotification forwarded_types \<and>
            isl (json_Unmarshal env packetType sb))) \<longrightarrow>
          only_logs evs \<and>
          serverListener_loop env l buffer (Datagram d # rs) =
            (evs @ fst (serverListener_loop env l buffer' rs),
             snd (serverListener_loop env l buffer' rs))) \<and>
         (sb \<noteq> [] \<longrightarrow>
          evs = (case err of Some e \<Rightarrow> [Log (CopyError packetType (LibError e))]
                 | None \<Rightarrow> []) @ fst (dispatch env l packetType sb))"
proof -
  let ?logged = "case err of Some e \<Rightarrow> [Log (CopyError packetType (LibError e))]
                 | None \<Rightarrow> []"
  note body = serverListener_body_copied [OF assms(4,5,6), of l]
  have empty: "only_logs evs \<and> snd (serverListener_body env l buffer') = Next" if "sb = []"
    using body that assms(7) by (simp add: only_logs_copy_log)
  have bad: "only_logs evs \<and> snd (serverListener_body env l buffer') = Next"
    if "sb \<noteq> []" "packetType \<in> insert PlayerDisconnectionNotification forwarded_types"
       "isl (json_Unmarshal env packetType sb)"
  proof -
    from that(3) obtain e where "json_Unmarshal env packetType sb = Inl e"
      by (cases "json_Unmarshal env packetType sb") auto
    from dispatch_unmarshal_fails [OF that(2) this, of l] body that(1) assms(7)
    show ?thesis by (simp add: only_logs_copy_log)
  qed
  have dropped: "only_logs evs \<and>
          serverListener_loop env l buffer (Datagram d # rs) =
            (evs @ fst (serverListener_loop env l buffer' rs),
             snd (serverListener_loop env l buffer' rs))"
    if "sb = [] \<or>
           (packetType \<in> insert PlayerDisconnectionNotification forwarded_types \<and>
            isl (json_Unmarshal env packetType sb))"
  proof -
    from that empty bad
    have "only_logs evs \<and> snd (serverListener_body env l buffer') = Next"
      by (cases "sb = []") auto
    with loop_Datagram_Next [OF assms(1,2,3), of env rs] assms(7)
    show ?thesis by simp
  qed
  have kept: "evs = ?logged @ fst (dispatch env l packetType sb)" if "sb \<noteq> []"
    using body that assms(7) by simp
  show ?thesis
    using dropped kept by blast
qed

lemma demo_buffer_bad_json:
  "ReadFromUDP (replicate 4096 0) [1, 0x1F, 0x8B, 0x08, 1, 0x7C] =
     (6, 1 # 0x1F # 0x8B # 0x08 # 1 # 0x7C # replicate 4090 0)"
  by (simp add: ReadFromUDP_def)

theorem decode_failure_logged_and_dropped_witness:
  "serverListener_loop demo_env demo_conn (replicate 4096 0)
     [Datagram [1, 0x1F, 0x8B, 0x08, 1, 0x7C]] =
     ([Log (CopyError GenerateMap (LibError ''gzip: invalid header'')),
       Log (UnmarshalFailed GenerateMap (LibError ''invalid character''))],
      Blocked)"
proof -
  let ?b = "1 # 0x1F # 0x8B # 0x08 # 1 # 0x7C # replicate 4090 (0 :: byte)"
  have h1: "active demo_conn" by (simp add: demo_conn_def)
  have h3: "0 < (6 :: nat)" by simp
  have h4: "gzip_NewReader demo_env (reader_input ?b) = None"
    by (simp add: demo_env_def reader_input_def demo_NewReader_def)
  have h5: "io_Copy demo_env (reader_input ?b) = ([0x7C], Some ''gzip: invalid header'')"
    by (simp add: demo_env_def reader_input_def demo_Copy_def demo_stream_def zeros_no_header)
  have h6: "GenerateMap = type_of_byte demo_env (packetTypeId_of ?b)"
    by (simp add: demo_env_def packetTypeId_of_def demo_type_of_byte_def)
  have u: "isl (json_Unmarshal demo_env GenerateMap [0x7C])"
    by (simp add: demo_env_def demo_Unmarshal_def braced_def)
  have body: "fst (serverListener_body demo_env demo_conn ?b) =
     [Log (CopyError GenerateMap (LibError ''gzip: invalid header'')),
       Log (UnmarshalFailed GenerateMap (LibError ''invalid character''))]"
    by (simp add: serverListener_body_def demo_env_def reader_input_def packetTypeId_of_def
          demo_type_of_byte_def demo_NewReader_def demo_Copy_def demo_stream_def zeros_no_header dispatch_def forward_def
          demo_Unmarshal_def braced_def)
  from decode_failure_logged_and_dropped [OF h1 demo_buffer_bad_json h3 h4 h5 h6 refl, of "[]"] u
  show ?thesis by (simp add: body h1 forwarded_types_def)
qed

text \<open>
  C1, as stated, fails: a ping datagram whose decompression ends in an error is not
  dropped; the error is logged and the pong goes out.
\<close>

theorem decode_failure_counterexample:
  "io_Copy demo_env
     (reader_input (snd (ReadFromUDP (replicate 4096 0) [7, 0x1F, 0x8B, 0x08, 2, 0x7B, 0x7D]))) =
     ([0x7B, 0x7D], Some ''gzip: invalid header'') \<and>
   serverListener demo_env demo_conn [Datagram [7, 0x1F, 0x8B, 0x08, 2, 0x7B, 0x7D]] =
     ([Log (CopyError Ping (LibError ''gzip: invalid header'')),
       Submitted \<lparr>PacketType = Pong, PacketData = PongPacket ''u1''\<rparr>,
       UdpWrite (UDPConn ''127.0.0.1:6669'') [8, 0x1F, 0x8B, 0x08, 3, 0x7B, 0x75, 0x31]],
      Blocked)"
  by (simp add: serverListener_def ReadFromUDP_def serverListener_body_def demo_env_def
        reader_input_def packetTypeId_of_def demo_type_of_byte_def demo_NewReader_def
        demo_Copy_def demo_stream_def zeros_no_header dispatch_def SendPacketToServer_def
        CreatePongPacket_def demo_conn_def
        demo_Marshal_def demo_gzip_def demo_byte_of_type_def)

lemma forward_listener:
  assumes "json_Unmarshal env packetType sb = Inr p" and "clientListener l = Some listener"
  shows "received (fst (forward env l packetType structure sb)) =
           [\<lparr>PacketType = packetType, PacketData = structure p\<rparr>] \<and>
         snd (forward env l packetType structure sb) = Next"
  using assms
  by (simp add: forward_def SendPacketToClient_def split: option.split)

text \<open>
  C2, as the code has it. Let a packet of a forwarded type (generate-map, move-player,
  update-server-info, add-player) be sent: SendPacketToServer succeeds and writes the
  datagram \<open>frame\<close>. Let the receive loop read that datagram into its buffer, which it
  fits, on a connection with a listener. If the tag byte is read back as the type it was
  written for, the gzip reader recovers the serialization from its compressed body
  followed by the bytes the buffer still holds behind the frame, and json.Unmarshal
  inverts json.Marshal on the payload, then the loop decodes exactly the packet that was
  sent, the same type and the same payload, and hands it to the listener.
\<close>

theorem forwarded_packet_roundtrip:
  assumes "T \<in> forwarded_types"
    and "SendPacketToServer env s \<lparr>PacketType = T, PacketData = structure_of T p\<rparr> =
           (Returns None, sent)"
    and "udp_writes sent = [(c, frame)]"
    and "length frame \<le> length buffer"
    and "type_of_byte env (byte_of_type env T) = T"
    and "json_Marshal env (structure_of T p) = Inr data"
    and "gunzip_recovers env data (drop (length frame) buffer)"
    and "json_inverts env T p"
    and "clientListener l = Some listener"
  shows "received (fst (serverListener_body env l (snd (ReadFromUDP buffer frame)))) =
           [\<lparr>PacketType = T, PacketData = structure_of T p\<rparr>] \<and>
         snd (serverListener_body env l (snd (ReadFromUDP buffer frame))) = Next"
proof -
  let ?pkt = "\<lparr>PacketType = T, PacketData = structure_of T p\<rparr>"
  let ?stale = "drop (length frame) buffer"
  from SendPacketToServer_ok_cases [OF assms(2)]
  obtain data' body c' where m: "json_Marshal env (PacketData ?pkt) = Inr data'"
    and ne: "data' \<noteq> []"
    and z: "gzip_Close env data' = Inr body"
    and sent: "sent = [Submitted ?pkt, UdpWrite c' (byte_of_type env (PacketType ?pkt) # body)]"
    by blast
  from m assms(6) have d: "data' = data" by simp
  from sent assms(3) have frame: "frame = byte_of_type env T # body" by simp
  from assms(7) z d
  have nr: "gzip_NewReader env (body @ ?stale) = None"
    and cp: "fst (io_Copy env (body @ ?stale)) = data"
    by (simp_all add: gunzip_recovers_def)
  from assms(8) assms(6) have u: "json_Unmarshal env T data = Inr p"
    by (simp add: json_inverts_def)
  have buf: "snd (ReadFromUDP buffer frame) = byte_of_type env T # body @ ?stale"
    using ReadFromUDP_fits [OF assms(4)] frame by simp
  have tag: "type_of_byte env (packetTypeId_of (snd (ReadFromUDP buffer frame))) = T"
    by (simp add: buf packetTypeId_of_def assms(5))
  have ri: "reader_input (snd (ReadFromUDP buffer frame)) = body @ ?stale"
    by (simp add: buf reader_input_def)
  obtain err where cp': "io_Copy env (body @ ?stale) = (data, err)"
    using cp by (cases "io_Copy env (body @ ?stale)") simp
  have nr': "gzip_NewReader env (reader_input (snd (ReadFromUDP buffer frame))) = None"
    using nr ri by simp
  have cp'': "io_Copy env (reader_input (snd (ReadFromUDP buffer frame))) = (data, err)"
    using cp' ri by simp
  have body: "serverListener_body env l (snd (ReadFromUDP buffer frame)) =
      ((case err of Some e \<Rightarrow> [Log (CopyError T (LibError e))] | None \<Rightarrow> []) @
         fst (forward env l T (structure_of T) data),
       snd (forward env l T (structure_of T) data))"
    using serverListener_body_copied [OF nr' cp'' tag [symmetric], of l] ne d
    by (simp add: dispatch_forwarded [OF assms(1)])
  show ?thesis
    using forward_listener [OF u assms(9), of "structure_of T"]
    by (simp add: body received_append copy_log_silent)
qed

theorem forwarded_packet_roundtrip_witness:
  "SendPacketToServer demo_env demo_conn
     \<lparr>PacketType = GenerateMap, PacketData = GenerateMapPacket [0x7B, 0x7D]\<rparr> =
     (Returns None,
      [Submitted \<lparr>PacketType = GenerateMap, PacketData = GenerateMapPacket [0x7B, 0x7D]\<rparr>,
       UdpWrite (UDPConn ''127.0.0.1:6669'') [1, 0x1F, 0x8B, 0x08, 2, 0x7B, 0x7D]]) \<and>
   received (fst (serverListener_body demo_env demo_conn
      (snd (ReadFromUDP (replicate 4096 0) [1, 0x1F, 0x8B, 0x08, 2, 0x7B, 0x7D])))) =
     [\<lparr>PacketType = GenerateMap, PacketData = GenerateMapPacket [0x7B, 0x7D]\<rparr>]"
proof -
  let ?pkt = "\<lparr>PacketType = GenerateMap, PacketData = GenerateMapPacket [0x7B, 0x7D :: byte]\<rparr>"
  let ?frame = "[1, 0x1F, 0x8B, 0x08, 2, 0x7B, 0x7D :: byte]"
  let ?sent = "[Submitted ?pkt, UdpWrite (UDPConn ''127.0.0.1:6669'') ?frame]"
  have h1: "GenerateMap \<in> forwarded_types" by (simp add: forwarded_types_def)
  have h2: "SendPacketToServer demo_env demo_conn
              \<lparr>PacketType = GenerateMap, PacketData = structure_of GenerateMap [0x7B, 0x7D]\<rparr> =
            (Returns None, ?sent)"
    by (simp add: SendPacketToServer_def demo_env_def demo_conn_def demo_Marshal_def
          demo_structure_def braced_def demo_gzip_def demo_byte_of_type_def)
  have h3: "udp_writes ?sent = [(UDPConn ''127.0.0.1:6669'', ?frame)]" by simp
  have h4: "length ?frame \<le> length (replicate 4096 (0 :: byte))" by simp
  have h5: "type_of_byte demo_env (byte_of_type demo_env GenerateMap) = GenerateMap"
    by (simp add: demo_env_def demo_byte_of_type_def demo_type_of_byte_def)
  have h6: "json_Marshal demo_env (structure_of GenerateMap [0x7B, 0x7D]) = Inr [0x7B, 0x7D]"
    by (simp add: demo_env_def demo_Marshal_def demo_structure_def braced_def)
  have h7: "gunzip_recovers demo_env [0x7B, 0x7D] (drop (length ?frame) (replicate 4096 0))"
    by (simp add: gunzip_recovers_def demo_env_def demo_gzip_def demo_NewReader_def
          demo_Copy_def demo_stream_def zeros_no_header)
  have h8: "json_inverts demo_env GenerateMap [0x7B, 0x7D]"
    by (simp add: json_inverts_def demo_env_def demo_Marshal_def demo_structure_def
          demo_Unmarshal_def braced_def)
  have h9: "clientListener demo_conn = Some (\<lambda>p. None)" by (simp add: demo_conn_def)
  from forwarded_packet_roundtrip [OF h1 h2 h3 h4 h5 h6 h7 h8 h9] h2
  show ?thesis by simp
qed

text \<open>
  C2, as stated, fails. A pong, a packet this connection itself sends, is sent well, and
  the loop that reads its frame unmarshals nothing and reports an unknown type. And a
  generate-map packet is sent well, its frame fits the buffer, and the loop that reads the
  frame after a longer datagram hands the listener nothing: the gzip reader takes the
  bytes left behind the frame for a second stream and appends them, and the text no longer
  unmarshals.
\<close>

theorem roundtrip_counterexample:
  "SendPacketToServer demo_env demo_conn (CreatePongPacket ''u1'') =
     (Returns None,
      [Submitted \<lparr>PacketType = Pong, PacketData = PongPacket ''u1''\<rparr>,
       UdpWrite (UDPConn ''127.0.0.1:6669'') [8, 0x1F, 0x8B, 0x08, 3, 0x7B, 0x75, 0x31]]) \<and>
   serverListener demo_env demo_conn [Datagram [8, 0x1F, 0x8B, 0x08, 3, 0x7B, 0x75, 0x31]] =
     ([Log (CopyError Pong (LibError ''gzip: invalid header'')),
       Log (UnknownPacketType Pong)],
      Blocked) \<and>
   SendPacketToServer demo_env demo_conn
     \<lparr>PacketType = GenerateMap, PacketData = GenerateMapPacket [0x7B, 0x7D]\<rparr> =
     (Returns None,
      [Submitted \<lparr>PacketType = GenerateMap, PacketData = GenerateMapPacket [0x7B, 0x7D]\<rparr>,
       UdpWrite (UDPConn ''127.0.0.1:6669'') [1, 0x1F, 0x8B, 0x08, 2, 0x7B, 0x7D]]) \<and>
   serverListener demo_env demo_conn
     [Datagram [1, 0x1F, 0x8B, 0x08, 2, 0x7B, 0x7D, 0x1F, 0x8B, 0x08, 1, 0x21],
      Datagram [1, 0x1F, 0x8B, 0x08, 2, 0x7B, 0x7D]] =
     ([Log (CopyError GenerateMap (LibError ''gzip: invalid header'')),
       Log (UnmarshalFailed GenerateMap (LibError ''invalid character'')),
       Log (CopyError GenerateMap (LibError ''gzip: invalid header'')),
       Log (UnmarshalFailed GenerateMap (LibError ''invalid character''))],
      Blocked)"
  by (simp add: serverListener_def ReadFromUDP_def serverListener_body_def demo_env_def
        reader_input_def packetTypeId_of_def demo_type_of_byte_def demo_NewReader_def
        demo_Copy_def demo_stream_def zeros_no_header dispatch_def forward_def
        SendPacketToServer_def CreatePongPacket_def demo_conn_def demo_Marshal_def
        demo_structure_def demo_Unmarshal_def braced_def demo_gzip_def demo_byte_of_type_def)

end
